theory Spec2Isabelle
  imports Main "HOL-Library.AList" "HOL-Library.Multiset"
begin

section \<open>The object/graph codec of the commerce engine (class ObjectBuilder)\<close>

text \<open>
  A shallow embedding of the TypeScript class \<open>ObjectBuilder\<close>: the schema-driven
  mapping between nested application objects and the quads of an N3 store.

  Conventions of the embedding.
  \<^item> A JavaScript object is an association list with distinct keys in insertion order;
    \<open>o[k] = v\<close> is \<open>AList.update k v\<close> (an existing key keeps its place, a new key goes
    last). Keys are ordinary data keys: nothing is inherited from a prototype, and no
    key is a canonical array index.
  \<^item> Strings are HOL strings; \<open>toLowerCase\<close> acts on the ASCII letters.
  \<^item> Numbers are the integers; the number that \<open>Number\<close> reads from a text that is not a
    decimal integer is kept symbolic (\<open>JNumberText\<close>).
  \<^item> The host environment (the UUID generator, the local calendar, the formatting and
    parsing of dates) is a parameter \<open>h\<close> of the functions that use it.
  \<^item> A thrown exception is the left summand of the result; the call stack is a fuel
    parameter, and running out of it is the \<open>RangeError\<close> of the JavaScript engine.
\<close>

subsection \<open>JavaScript values\<close>

datatype jsval =
    JUndefined
  | JString string
  | JNumber int
  | JNumberText string
  | JBoolean bool
  | JDate "int option"
  | JArray "jsval list"
  | JObject "(string \<times> jsval) list"

datatype error = TypeError | RangeError

record host =
  uuidv4 :: "nat \<Rightarrow> string"
  startOfDay :: "int \<Rightarrow> int"
  toLocaleDateString :: "int \<Rightarrow> string"
  dateToString :: "int \<Rightarrow> string"
  dateParse :: "string \<Rightarrow> int option"
  numberToString :: "string \<Rightarrow> string"

text \<open>Decimal numerals, as \<open>String(n)\<close> writes them and \<open>parseInt\<close> reads them.\<close>

definition digit_char :: "nat \<Rightarrow> char" where
  "digit_char d = char_of (48 + d)"

function string_of_nat :: "nat \<Rightarrow> string" where
  "string_of_nat n =
     (if n < 10 then [digit_char n] else string_of_nat (n div 10) @ [digit_char (n mod 10)])"
  by pat_completeness auto
termination
  by (relation "measure id") auto

declare string_of_nat.simps [simp del]

definition string_of_int :: "int \<Rightarrow> string" where
  "string_of_int i = (if i < 0 then CHR ''-'' # string_of_nat (nat (- i)) else string_of_nat (nat i))"

definition is_digit :: "char \<Rightarrow> bool" where
  "is_digit c = (48 \<le> (of_char c :: nat) \<and> (of_char c :: nat) \<le> 57)"

definition digit_val :: "char \<Rightarrow> nat" where
  "digit_val c = of_char c - 48"

definition nat_of_digits :: "string \<Rightarrow> nat" where
  "nat_of_digits s = fold (\<lambda>c n. 10 * n + digit_val c) s 0"

definition is_hex_digit :: "char \<Rightarrow> bool" where
  "is_hex_digit c = (is_digit c
     \<or> (65 \<le> (of_char c :: nat) \<and> (of_char c :: nat) \<le> 70)
     \<or> (97 \<le> (of_char c :: nat) \<and> (of_char c :: nat) \<le> 102))"

definition hex_val :: "char \<Rightarrow> nat" where
  "hex_val c = (if is_digit c then of_char c - 48
                else if (of_char c :: nat) \<le> 70 then of_char c - 55 else of_char c - 87)"

definition is_space :: "char \<Rightarrow> bool" where
  "is_space c = ((of_char c :: nat) \<in> {9, 10, 11, 12, 13, 32})"

definition parse_magnitude :: "string \<Rightarrow> nat option" where
  "parse_magnitude s =
     (if take 2 s = ''0x'' \<or> take 2 s = ''0X'' then
        (let ds = takeWhile is_hex_digit (drop 2 s)
         in if ds = [] then None else Some (fold (\<lambda>c n. 16 * n + hex_val c) ds 0))
      else
        (let ds = takeWhile is_digit s
         in if ds = [] then None else Some (nat_of_digits ds)))"

definition parseInt :: "string \<Rightarrow> int option" where
  "parseInt s =
     (let t = dropWhile is_space s in
      case t of
        [] \<Rightarrow> None
      | c # r \<Rightarrow>
          if c = CHR ''-'' then map_option (\<lambda>n. - int n) (parse_magnitude r)
          else if c = CHR ''+'' then map_option int (parse_magnitude r)
          else map_option int (parse_magnitude t))"

definition Number :: "string \<Rightarrow> jsval" where
  "Number s =
     (case s of
        [] \<Rightarrow> JNumber 0
      | c # r \<Rightarrow>
          if c = CHR ''-'' \<and> r \<noteq> [] \<and> list_all is_digit r then JNumber (- int (nat_of_digits r))
          else if list_all is_digit s then JNumber (int (nat_of_digits s))
          else JNumberText s)"

definition lower_char :: "char \<Rightarrow> char" where
  "lower_char c =
     (if 65 \<le> (of_char c :: nat) \<and> (of_char c :: nat) \<le> 90 then char_of ((of_char c :: nat) + 32) else c)"

definition toLowerCase :: "string \<Rightarrow> string" where
  "toLowerCase s = map lower_char s"

definition substring :: "nat \<Rightarrow> string \<Rightarrow> string" where
  "substring n s = drop n s"

fun join :: "string \<Rightarrow> string list \<Rightarrow> string" where
  "join sep [] = []"
| "join sep [x] = x"
| "join sep (x # y # ys) = x @ sep @ join sep (y # ys)"

text \<open>\<open>String(v)\<close>, which template strings and property keys apply to a value.\<close>

fun js_String :: "host \<Rightarrow> jsval \<Rightarrow> string" where
  "js_String h JUndefined = ''undefined''"
| "js_String h (JString s) = s"
| "js_String h (JNumber i) = string_of_int i"
| "js_String h (JNumberText s) = numberToString h s"
| "js_String h (JBoolean b) = (if b then ''true'' else ''false'')"
| "js_String h (JDate d) = (case d of None \<Rightarrow> ''Invalid Date'' | Some t \<Rightarrow> dateToString h t)"
| "js_String h (JArray xs) =
     join '','' (map (\<lambda>x. if x = JUndefined then [] else js_String h x) xs)"
| "js_String h (JObject kvs) = ''[object Object]''"

text \<open>
  The operator \<open>k in v\<close> and the property read \<open>v[k]\<close>. An array has its \<open>length\<close>;
  its elements are read by index with \<open>js_index\<close>.
\<close>

fun js_in :: "string \<Rightarrow> jsval \<Rightarrow> error + bool" where
  "js_in k (JObject kvs) = Inr (map_of kvs k \<noteq> None)"
| "js_in k (JArray xs) = Inr (k = ''length'')"
| "js_in k (JDate d) = Inr False"
| "js_in k _ = Inl TypeError"

fun js_get :: "jsval \<Rightarrow> string \<Rightarrow> error + jsval" where
  "js_get JUndefined k = Inl TypeError"
| "js_get (JObject kvs) k = Inr (case map_of kvs k of None \<Rightarrow> JUndefined | Some v \<Rightarrow> v)"
| "js_get (JArray xs) k = Inr (if k = ''length'' then JNumber (int (length xs)) else JUndefined)"
| "js_get (JString s) k = Inr (if k = ''length'' then JNumber (int (length s)) else JUndefined)"
| "js_get _ k = Inr JUndefined"

fun js_index :: "jsval \<Rightarrow> nat \<Rightarrow> error + jsval" where
  "js_index JUndefined i = Inl TypeError"
| "js_index (JArray xs) i = Inr (if i < length xs then xs ! i else JUndefined)"
| "js_index (JString s) i = Inr (if i < length s then JString [s ! i] else JUndefined)"
| "js_index (JObject kvs) i =
     Inr (case map_of kvs (string_of_nat i) of None \<Rightarrow> JUndefined | Some v \<Rightarrow> v)"
| "js_index _ i = Inr JUndefined"

text \<open>The test \<open>v.length > 1\<close> and the bound of the loop \<open>i < v.length\<close>.\<close>

definition js_length :: "jsval \<Rightarrow> error + nat" where
  "js_length v =
     (case js_get v ''length'' of
        Inl e \<Rightarrow> Inl e
      | Inr (JNumber n) \<Rightarrow> Inr (nat n)
      | Inr _ \<Rightarrow> Inr 0)"

subsection \<open>Terms, quads and the store\<close>

datatype rdfterm = NamedNode string | BlankNode string | Literal string string

fun termValue :: "rdfterm \<Rightarrow> string" where
  "termValue (NamedNode u) = u"
| "termValue (BlankNode b) = b"
| "termValue (Literal v d) = v"

definition isNamedNode :: "rdfterm \<Rightarrow> bool" where
  "isNamedNode t = (case t of NamedNode u \<Rightarrow> True | _ \<Rightarrow> False)"

definition isBlankNode :: "rdfterm \<Rightarrow> bool" where
  "isBlankNode t = (case t of BlankNode u \<Rightarrow> True | _ \<Rightarrow> False)"

type_synonym quad = "rdfterm \<times> rdfterm \<times> rdfterm"

definition subject :: "quad \<Rightarrow> rdfterm" where "subject q = fst q"
definition predicate :: "quad \<Rightarrow> rdfterm" where "predicate q = fst (snd q)"
definition object :: "quad \<Rightarrow> rdfterm" where "object q = snd (snd q)"

abbreviation xsd_string :: string where "xsd_string \<equiv> ''http://www.w3.org/2001/XMLSchema#string''"
abbreviation xsd_boolean :: string where "xsd_boolean \<equiv> ''http://www.w3.org/2001/XMLSchema#boolean''"
abbreviation xsd_integer :: string where "xsd_integer \<equiv> ''http://www.w3.org/2001/XMLSchema#integer''"
abbreviation xsd_double :: string where "xsd_double \<equiv> ''http://www.w3.org/2001/XMLSchema#double''"

abbreviation rdf_type :: string where "rdf_type \<equiv> ''http://www.w3.org/1999/02/22-rdf-syntax-ns#type''"
abbreviation schema_ItemList :: string where "schema_ItemList \<equiv> ''http://schema.org/ItemList''"
abbreviation schema_itemListElement :: string where
  "schema_itemListElement \<equiv> ''http://schema.org/itemListElement''"
abbreviation schema_position :: string where "schema_position \<equiv> ''http://schema.org/position''"
abbreviation schema_item :: string where "schema_item \<equiv> ''http://schema.org/item''"

text \<open>
  \<open>N3.DataFactory.literal(v)\<close> with no datatype argument: the lexical form is \<open>String(v)\<close>,
  the datatype is read off a boolean or a number and is \<open>xsd:string\<close> otherwise.
\<close>

definition literal :: "host \<Rightarrow> jsval \<Rightarrow> rdfterm" where
  "literal h v =
     Literal (js_String h v)
       (case v of JBoolean b \<Rightarrow> xsd_boolean | JNumber i \<Rightarrow> xsd_integer
                | JNumberText s \<Rightarrow> xsd_double | _ \<Rightarrow> xsd_string)"

text \<open>
  The store is a set of quads; the list gives the order in which \<open>getQuads\<close> enumerates
  them. \<open>addQuad\<close> does nothing when the quad is there already.
\<close>

definition addQuad :: "quad list \<Rightarrow> quad \<Rightarrow> quad list" where
  "addQuad st q = (if q \<in> set st then st else st @ [q])"

definition matches :: "rdfterm option \<Rightarrow> rdfterm \<Rightarrow> bool" where
  "matches pat t = (case pat of None \<Rightarrow> True | Some u \<Rightarrow> u = t)"

definition getQuads :: "quad list \<Rightarrow> rdfterm option \<Rightarrow> rdfterm option \<Rightarrow> rdfterm option \<Rightarrow> quad list" where
  "getQuads st s p ob =
     filter (\<lambda>q. matches s (subject q) \<and> matches p (predicate q) \<and> matches ob (object q)) st"

subsection \<open>The schema\<close>

record AbstractProperty =
  p_uri :: string
  p_type :: string
  isArray :: bool
  isOptional :: bool
  isMultiType :: bool

record AbstractDefinition =
  d_uri :: string
  extends :: "string option"
  properties :: "(string \<times> AbstractProperty) list"
  propertyUris :: "(string \<times> string) list"

type_synonym AbstractDefinitionMap = "(string \<times> AbstractDefinition) list"

text \<open>The constructor's reverse map from type URI to type key.\<close>

definition typeDefs :: "AbstractDefinitionMap \<Rightarrow> (string \<times> string) list" where
  "typeDefs defs = fold (\<lambda>(key, v). AList.update (d_uri v) key) defs []"

subsection \<open>Dates\<close>

definition getBeginningOfDay :: "host \<Rightarrow> int option \<Rightarrow> int option" where
  "getBeginningOfDay h d = map_option (startOfDay h) d"

definition isBeginningOfDay :: "host \<Rightarrow> int option \<Rightarrow> bool" where
  "isBeginningOfDay h d = (case d of None \<Rightarrow> False | Some t \<Rightarrow> startOfDay h t = t)"

subsection \<open>The state: store, cache, console\<close>

text \<open>
  The per-operation cache maps a type key to two references, to a property map and to
  a URI map. The maps live in two heaps (\<open>propObjs\<close>, \<open>uriObjs\<close>) addressed by index,
  because the code hands out and overwrites the cached objects themselves.
\<close>

record state =
  quads :: "quad list"
  cache :: "(string \<times> nat \<times> nat) list"
  propObjs :: "(string \<times> AbstractProperty) list list"
  uriObjs :: "(string \<times> string) list list"
  uuidCount :: nat
  console :: "string list"

definition emptyState :: state where
  "emptyState = \<lparr> quads = [], cache = [], propObjs = [], uriObjs = [], uuidCount = 0, console = [] \<rparr>"

definition derefProps :: "state \<Rightarrow> nat \<Rightarrow> (string \<times> AbstractProperty) list" where
  "derefProps s a = (if a < length (propObjs s) then propObjs s ! a else [])"

definition derefUris :: "state \<Rightarrow> nat \<Rightarrow> (string \<times> string) list" where
  "derefUris s a = (if a < length (uriObjs s) then uriObjs s ! a else [])"

definition newProps :: "state \<Rightarrow> nat \<times> state" where
  "newProps s = (length (propObjs s), s\<lparr>propObjs := propObjs s @ [[]]\<rparr>)"

definition newUris :: "state \<Rightarrow> nat \<times> state" where
  "newUris s = (length (uriObjs s), s\<lparr>uriObjs := uriObjs s @ [[]]\<rparr>)"

definition freshUuid :: "host \<Rightarrow> state \<Rightarrow> string \<times> state" where
  "freshUuid h s = (uuidv4 h (uuidCount s), s\<lparr>uuidCount := Suc (uuidCount s)\<rparr>)"

definition store_addQuad :: "quad \<Rightarrow> state \<Rightarrow> state" where
  "store_addQuad q s = s\<lparr>quads := addQuad (quads s) q\<rparr>"

definition console_log :: "string \<Rightarrow> state \<Rightarrow> state" where
  "console_log msg s = s\<lparr>console := console s @ [msg]\<rparr>"

subsection \<open>The property resolver\<close>

definition hasParent :: "AbstractDefinition \<Rightarrow> bool" where
  "hasParent d = (case extends d of None \<Rightarrow> False | Some p \<Rightarrow> p \<noteq> [] \<and> p \<noteq> ''IObject'')"

fun getAllProperties :: "nat \<Rightarrow> AbstractDefinitionMap \<Rightarrow> string \<Rightarrow> state \<Rightarrow> error + (nat \<times> state)" where
  "getAllProperties 0 defs ty s = Inl RangeError"
| "getAllProperties (Suc f) defs ty s =
     (case map_of (cache s) ty of
        Some e \<Rightarrow> Inr (fst e, s)
      | None \<Rightarrow>
         (case map_of defs ty of
            None \<Rightarrow> Inl TypeError
          | Some d \<Rightarrow>
             (case (if hasParent d then getAllProperties f defs (the (extends d)) s
                    else Inr (newProps s)) of
                Inl e \<Rightarrow> Inl e
              | Inr (a, s') \<Rightarrow>
                  Inr (a, s'\<lparr>propObjs := (propObjs s')[a :=
                         fold (\<lambda>(key, v). AList.update key v) (properties d) (derefProps s' a)]\<rparr>))))"

fun getAllPropertyUris :: "nat \<Rightarrow> AbstractDefinitionMap \<Rightarrow> string \<Rightarrow> state \<Rightarrow> error + (nat \<times> state)" where
  "getAllPropertyUris 0 defs ty s = Inl RangeError"
| "getAllPropertyUris (Suc f) defs ty s =
     (case map_of (cache s) ty of
        Some e \<Rightarrow> Inr (snd e, s)
      | None \<Rightarrow>
         (case map_of defs ty of
            None \<Rightarrow> Inl TypeError
          | Some d \<Rightarrow>
             (case (if hasParent d then getAllPropertyUris f defs (the (extends d)) s
                    else Inr (newUris s)) of
                Inl e \<Rightarrow> Inl e
              | Inr (a, s') \<Rightarrow>
                  Inr (a, s'\<lparr>uriObjs := (uriObjs s')[a :=
                         fold (\<lambda>(key, v). AList.update key v) (propertyUris d) (derefUris s' a)]\<rparr>))))"

definition isLiteral :: "string \<Rightarrow> bool" where
  "isLiteral ty = (ty = ''string'' \<or> ty = ''number'' \<or> ty = ''boolean'' \<or> ty = ''Date'')"

subsection \<open>The graph builder\<close>

definition buildLiteral ::
  "host \<Rightarrow> string \<Rightarrow> string \<Rightarrow> string \<Rightarrow> string \<Rightarrow> jsval \<Rightarrow> state \<Rightarrow> error + state" where
  "buildLiteral h node property ty dkey dval s =
     (if ty = ''string'' \<or> ty = ''number'' \<or> ty = ''boolean'' then
        (if dkey = ''uuid'' then
           (case dval of
              JString v \<Rightarrow>
                Inr (store_addQuad (NamedNode node, NamedNode property,
                                    NamedNode (''urn:uuid:'' @ toLowerCase v)) s)
            | _ \<Rightarrow> Inl TypeError)
         else Inr (store_addQuad (NamedNode node, NamedNode property, literal h dval) s))
      else if ty = ''Date'' then
        (case dval of
           JDate d \<Rightarrow>
             (if isBeginningOfDay h d
              then Inr (store_addQuad (NamedNode node, NamedNode property,
                          literal h (JString (case d of None \<Rightarrow> ''Invalid Date''
                                                | Some t \<Rightarrow> toLocaleDateString h t))) s)
              else Inr (store_addQuad (NamedNode node, NamedNode property, literal h dval) s))
         | _ \<Rightarrow> Inl TypeError)
      else Inr s)"

definition missingTypeMessage :: "string \<Rightarrow> string" where
  "missingTypeMessage subType =
     ''Unable to determine object type from '' @ subType @ '' without '' @ [CHR 0x27] @ ''type'' @ [CHR 0x27]"

text \<open>
  \<open>buildResource\<close> and \<open>buildObject\<close> call each other. The recursion is tied by the
  fuel: in the definitions below \<open>rec\<close> stands for \<open>this.buildResource\<close> at the call
  sites of the body, and \<open>buildResource\<close> passes itself, with one unit of fuel less.
  \<open>buildEntryWith\<close> is the callback of \<open>forEach\<close> over the effective properties,
  \<open>buildEntriesWith\<close> the iteration, and \<open>buildItemsWith\<close> the \<open>for\<close> loop over the
  elements of an array (the index \<open>i\<close> and the number of elements that are left).
\<close>

type_synonym builder = "string \<Rightarrow> string \<Rightarrow> jsval \<Rightarrow> string \<Rightarrow> state \<Rightarrow> error + state"

definition mintUri :: "host \<Rightarrow> string \<Rightarrow> state \<Rightarrow> string \<times> state" where
  "mintUri h baseUri s = (baseUri @ ''#'' @ fst (freshUuid h s), snd (freshUuid h s))"

definition buildObjectWith ::
  "builder \<Rightarrow> host \<Rightarrow> AbstractProperty \<Rightarrow> jsval \<Rightarrow> string \<Rightarrow> state \<Rightarrow> error + (string \<times> state)" where
  "buildObjectWith rec h propertyDef dval baseUri s =
     (case js_in ''id'' dval of
        Inl e \<Rightarrow> Inl e
      | Inr hasId \<Rightarrow>
          (case (if hasId
                 then (case js_get dval ''id'' of Inl e \<Rightarrow> Inl e | Inr v \<Rightarrow> Inr (js_String h v, s))
                 else Inr (mintUri h baseUri s)) of
             Inl e \<Rightarrow> Inl e
           | Inr (subItemUri, s1) \<Rightarrow>
               (case (if isMultiType propertyDef then
                        (case js_in ''type'' dval of
                           Inl e \<Rightarrow> Inl e
                         | Inr hasType \<Rightarrow>
                             if hasType
                             then (case js_get dval ''type'' of
                                     Inl e \<Rightarrow> Inl e
                                   | Inr t \<Rightarrow> Inr (js_String h t, s1))
                             else Inr (p_type propertyDef,
                                       console_log (missingTypeMessage (p_type propertyDef)) s1))
                      else Inr (p_type propertyDef, s1)) of
                  Inl e \<Rightarrow> Inl e
                | Inr (subType, s2) \<Rightarrow>
                    (case rec subType subItemUri dval baseUri s2 of
                       Inl e \<Rightarrow> Inl e
                     | Inr s3 \<Rightarrow> Inr (subItemUri, s3)))))"

text \<open>One value of a property: a literal, or a sub-resource and the edge to it.\<close>

definition buildValueWith ::
  "builder \<Rightarrow> host \<Rightarrow> string \<Rightarrow> string \<Rightarrow> AbstractProperty \<Rightarrow> string \<Rightarrow> jsval \<Rightarrow> string \<Rightarrow> state \<Rightarrow>
     error + state" where
  "buildValueWith rec h node property val dkey dval baseUri s =
     (if isLiteral (p_type val) then buildLiteral h node property (p_type val) dkey dval s
      else
        (case buildObjectWith rec h val dval baseUri s of
           Inl e \<Rightarrow> Inl e
         | Inr (subItemUri, s') \<Rightarrow>
             Inr (store_addQuad (NamedNode node, NamedNode property, NamedNode subItemUri) s')))"

primrec buildItemsWith ::
  "builder \<Rightarrow> host \<Rightarrow> rdfterm \<Rightarrow> AbstractProperty \<Rightarrow> string \<Rightarrow> jsval \<Rightarrow> string \<Rightarrow> nat \<Rightarrow> nat \<Rightarrow> state \<Rightarrow>
     error + state" where
  "buildItemsWith rec h itemList val dkey dval baseUri 0 i s = Inr s"
| "buildItemsWith rec h itemList val dkey dval baseUri (Suc k) i s =
     (case mintUri h baseUri s of
        (itemUri, s1) \<Rightarrow>
          (case js_index dval i of
             Inl e \<Rightarrow> Inl e
           | Inr x \<Rightarrow>
               (case buildValueWith rec h itemUri schema_item val dkey x baseUri
                       (store_addQuad (NamedNode itemUri, NamedNode schema_position, literal h (JNumber (int i)))
                          (store_addQuad (itemList, NamedNode schema_itemListElement, NamedNode itemUri) s1)) of
                  Inl e \<Rightarrow> Inl e
                | Inr s2 \<Rightarrow> buildItemsWith rec h itemList val dkey dval baseUri k (Suc i) s2)))"

definition buildEntryWith ::
  "builder \<Rightarrow> host \<Rightarrow> string \<Rightarrow> jsval \<Rightarrow> string \<Rightarrow> string \<Rightarrow> AbstractProperty \<Rightarrow> state \<Rightarrow> error + state" where
  "buildEntryWith rec h node obj baseUri dkey val s =
     (case (if isOptional val then js_in dkey obj else Inr True) of
        Inl e \<Rightarrow> Inl e
      | Inr present \<Rightarrow>
          if \<not> present then Inr s
          else
            (case js_get obj dkey of
               Inl e \<Rightarrow> Inl e
             | Inr dval \<Rightarrow>
                 (case (if isArray val then js_length dval else Inr 0) of
                    Inl e \<Rightarrow> Inl e
                  | Inr n \<Rightarrow>
                      if isArray val \<and> n > 1 then
                        (case mintUri h baseUri s of
                           (listUri, s1) \<Rightarrow>
                             buildItemsWith rec h (NamedNode listUri) val dkey dval baseUri n 0
                               (store_addQuad (NamedNode node, NamedNode (p_uri val), NamedNode listUri)
                                  (store_addQuad (NamedNode listUri, NamedNode rdf_type,
                                                  NamedNode schema_ItemList) s1)))
                      else
                        (case (if isArray val then js_index dval 0 else Inr dval) of
                           Inl e \<Rightarrow> Inl e
                         | Inr dval0 \<Rightarrow>
                             buildValueWith rec h node (p_uri val) val dkey dval0 baseUri s))))"

primrec buildEntriesWith ::
  "builder \<Rightarrow> host \<Rightarrow> string \<Rightarrow> jsval \<Rightarrow> string \<Rightarrow> (string \<times> AbstractProperty) list \<Rightarrow> state \<Rightarrow>
     error + state" where
  "buildEntriesWith rec h node obj baseUri [] s = Inr s"
| "buildEntriesWith rec h node obj baseUri (kv # rest) s =
     (case buildEntryWith rec h node obj baseUri (fst kv) (snd kv) s of
        Inl e \<Rightarrow> Inl e
      | Inr s' \<Rightarrow> buildEntriesWith rec h node obj baseUri rest s')"

text \<open>
  Lines 115 to 121 of \<open>buildResource\<close>: the cached property map, or a fresh resolution
  that is cached together with an empty URI map.
\<close>

definition buildProps :: "nat \<Rightarrow> AbstractDefinitionMap \<Rightarrow> string \<Rightarrow> state \<Rightarrow> error + (nat \<times> state)" where
  "buildProps f defs ty s =
     (case map_of (cache s) ty of
        Some e \<Rightarrow> Inr (fst e, s)
      | None \<Rightarrow>
         (case getAllProperties f defs ty s of
            Inl e \<Rightarrow> Inl e
          | Inr (a, s2) \<Rightarrow>
              (case newUris s2 of
                 (u, s3) \<Rightarrow> Inr (a, s3\<lparr>cache := AList.update ty (a, u) (cache s3)\<rparr>))))"

definition buildResourceWith ::
  "builder \<Rightarrow> host \<Rightarrow> nat \<Rightarrow> AbstractDefinitionMap \<Rightarrow> string \<Rightarrow> string \<Rightarrow> jsval \<Rightarrow> string \<Rightarrow> state \<Rightarrow>
     error + state" where
  "buildResourceWith rec h f defs ty node obj baseUri s =
     (case map_of defs ty of
        None \<Rightarrow> Inl TypeError
      | Some def \<Rightarrow>
          (case buildProps f defs ty
                  (store_addQuad (NamedNode node, NamedNode rdf_type, NamedNode (d_uri def)) s) of
             Inl e \<Rightarrow> Inl e
           | Inr (allProps, s1) \<Rightarrow>
               buildEntriesWith rec h node obj (if baseUri = [] then node else baseUri)
                 (derefProps s1 allProps) s1))"

primrec buildResource ::
  "host \<Rightarrow> AbstractDefinitionMap \<Rightarrow> nat \<Rightarrow> string \<Rightarrow> string \<Rightarrow> jsval \<Rightarrow> string \<Rightarrow> state \<Rightarrow> error + state" where
  "buildResource h defs 0 = (\<lambda>ty node obj baseUri s. Inl RangeError)"
| "buildResource h defs (Suc f) = buildResourceWith (buildResource h defs f) h f defs"

definition buildObject ::
  "host \<Rightarrow> AbstractDefinitionMap \<Rightarrow> nat \<Rightarrow> AbstractProperty \<Rightarrow> jsval \<Rightarrow> string \<Rightarrow> state \<Rightarrow>
     error + (string \<times> state)" where
  "buildObject h defs f = buildObjectWith (buildResource h defs f) h"

subsection \<open>The graph decoder\<close>

definition decodeLiteral :: "host \<Rightarrow> string \<Rightarrow> string \<Rightarrow> string \<Rightarrow> jsval" where
  "decodeLiteral h ty propKey v =
     (if ty = ''string'' then
        (if propKey = ''uuid'' then JString (toLowerCase (substring 9 v)) else JString v)
      else if ty = ''Date'' then JDate (dateParse h v)
      else if ty = ''number'' then Number v
      else if ty = ''boolean'' then JBoolean (toLowerCase v = ''true'')
      else JUndefined)"

definition isItemList :: "quad list \<Rightarrow> rdfterm \<Rightarrow> bool" where
  "isItemList st t =
     (isNamedNode t \<and>
      length (getQuads st (Some t) (Some (NamedNode rdf_type)) (Some (NamedNode schema_ItemList))) = 1)"

text \<open>
  \<open>decodeArray\<close>: the \<open>forEach\<close> that collects the pairs of position and item, the sort,
  and the \<open>map\<close> that decodes the items. A position is \<open>None\<close> when \<open>parseInt\<close> gives
  \<open>NaN\<close>; both comparisons of the sort's callback are then false. The sort is a stable
  insertion sort driven by that callback: an element stays in front of the later
  elements that the callback does not put before it.
\<close>

primrec collectItems :: "quad list \<Rightarrow> quad list \<Rightarrow> (int option \<times> rdfterm) list \<Rightarrow> (int option \<times> rdfterm) list" where
  "collectItems st [] output = output"
| "collectItems st (q # vals) output =
     collectItems st vals
       (if length (getQuads st (Some (object q)) (Some (NamedNode schema_position)) None) = 1
           \<and> length (getQuads st (Some (object q)) (Some (NamedNode schema_item)) None) = 1
        then output @ [(parseInt (termValue (object
                          (hd (getQuads st (Some (object q)) (Some (NamedNode schema_position)) None)))),
                        object (hd (getQuads st (Some (object q)) (Some (NamedNode schema_item)) None)))]
        else output)"

definition compareFn :: "int option \<times> rdfterm \<Rightarrow> int option \<times> rdfterm \<Rightarrow> int" where
  "compareFn a b =
     (case (fst a, fst b) of
        (Some x, Some y) \<Rightarrow> if x < y then - 1 else if x > y then 1 else 0
      | _ \<Rightarrow> 0)"

primrec insertBy :: "('a \<Rightarrow> 'a \<Rightarrow> int) \<Rightarrow> 'a \<Rightarrow> 'a list \<Rightarrow> 'a list" where
  "insertBy cmp x [] = [x]"
| "insertBy cmp x (y # ys) = (if cmp x y \<le> 0 then x # y # ys else y # insertBy cmp x ys)"

definition sortBy :: "('a \<Rightarrow> 'a \<Rightarrow> int) \<Rightarrow> 'a list \<Rightarrow> 'a list" where
  "sortBy cmp xs = foldr (insertBy cmp) xs []"

datatype nodeArg = UriArg string | TermArg rdfterm

type_synonym decoder = "nodeArg \<Rightarrow> string \<Rightarrow> state \<Rightarrow> error + (jsval \<times> state)"

primrec decodeItemsWith ::
  "decoder \<Rightarrow> host \<Rightarrow> bool \<Rightarrow> string \<Rightarrow> string \<Rightarrow> (int option \<times> rdfterm) list \<Rightarrow> state \<Rightarrow>
     error + (jsval list \<times> state)" where
  "decodeItemsWith rec h literalVal ty propKey [] s = Inr ([], s)"
| "decodeItemsWith rec h literalVal ty propKey (r # rs) s =
     (case (if literalVal then Inr (decodeLiteral h ty propKey (termValue (snd r)), s)
            else rec (TermArg (snd r)) [] s) of
        Inl e \<Rightarrow> Inl e
      | Inr (v, s1) \<Rightarrow>
          (case decodeItemsWith rec h literalVal ty propKey rs s1 of
             Inl e \<Rightarrow> Inl e
           | Inr (vs, s2) \<Rightarrow> Inr (v # vs, s2)))"

definition decodeArrayWith ::
  "decoder \<Rightarrow> host \<Rightarrow> string \<Rightarrow> bool \<Rightarrow> string \<Rightarrow> string \<Rightarrow> state \<Rightarrow> error + (jsval list \<times> state)" where
  "decodeArrayWith rec h nodeUri literalVal ty propKey s =
     decodeItemsWith rec h literalVal ty propKey
       (sortBy compareFn
          (collectItems (quads s)
             (getQuads (quads s) (Some (NamedNode nodeUri)) (Some (NamedNode schema_itemListElement)) None)
             []))
       s"

primrec findType :: "(string \<times> string) list \<Rightarrow> quad list \<Rightarrow> string" where
  "findType tds [] = []"
| "findType tds (q # qs) =
     (case map_of tds (termValue (object q)) of Some key \<Rightarrow> key | None \<Rightarrow> findType tds qs)"

definition typeNotFoundMessage :: "nodeArg \<Rightarrow> quad list \<Rightarrow> string" where
  "typeNotFoundMessage nodeUri types =
     ''Type not found for URI: ''
       @ (case nodeUri of UriArg u \<Rightarrow> ''undefined'' | TermArg t \<Rightarrow> termValue t)
       @ '' (types: '' @ join '', '' (map (\<lambda>t. termValue (object t)) types) @ '')''"

text \<open>
  Lines 238 to 247 of \<open>decodeResource\<close>: the cached pair of maps, or a fresh resolution
  of both that is then cached.
\<close>

definition decodeProps ::
  "nat \<Rightarrow> AbstractDefinitionMap \<Rightarrow> string \<Rightarrow> state \<Rightarrow> error + ((nat \<times> nat) \<times> state)" where
  "decodeProps f defs ty s =
     (case map_of (cache s) ty of
        Some e \<Rightarrow> Inr (e, s)
      | None \<Rightarrow>
         (case getAllProperties f defs ty s of
            Inl e \<Rightarrow> Inl e
          | Inr (ap, s1) \<Rightarrow>
              (case getAllPropertyUris f defs ty s1 of
                 Inl e \<Rightarrow> Inl e
               | Inr (au, s2) \<Rightarrow> Inr ((ap, au), s2\<lparr>cache := AList.update ty (ap, au) (cache s2)\<rparr>))))"

text \<open>
  The \<open>for\<close> loop of \<open>decodeResource\<close> over the quads of the node. \<open>allProps\<close> and
  \<open>allUris\<close> are references: each round reads the maps as they are at that moment.
\<close>

definition assignProp ::
  "AbstractProperty \<Rightarrow> string \<Rightarrow> jsval \<Rightarrow> (string \<times> jsval) list \<Rightarrow> error + (string \<times> jsval) list" where
  "assignProp prop propKey newval item =
     (if isArray prop then
        (case map_of item propKey of
           None \<Rightarrow> Inr (AList.update propKey (JArray [newval]) item)
         | Some (JArray xs) \<Rightarrow> Inr (AList.update propKey (JArray (xs @ [newval])) item)
         | Some _ \<Rightarrow> Inl TypeError)
      else Inr (AList.update propKey newval item))"

definition decodeValWith ::
  "decoder \<Rightarrow> host \<Rightarrow> nat \<Rightarrow> nat \<Rightarrow> quad \<Rightarrow> (string \<times> jsval) list \<Rightarrow> state \<Rightarrow>
     error + ((string \<times> jsval) list \<times> state)" where
  "decodeValWith rec h allProps allUris q item s =
     (case map_of (derefUris s allUris) (termValue (predicate q)) of
        None \<Rightarrow> Inr (item, s)
      | Some propKey \<Rightarrow>
          (case map_of (derefProps s allProps) propKey of
             None \<Rightarrow> Inl TypeError
           | Some prop \<Rightarrow>
               if isArray prop \<and> isItemList (quads s) (object q) then
                 (case decodeArrayWith rec h (termValue (object q)) (isLiteral (p_type prop))
                         (p_type prop) propKey s of
                    Inl e \<Rightarrow> Inl e
                  | Inr (arr, s1) \<Rightarrow> Inr (AList.update propKey (JArray arr) item, s1))
               else
                 (case (if isLiteral (p_type prop)
                        then Inr (decodeLiteral h (p_type prop) propKey (termValue (object q)), s)
                        else if isMultiType prop then rec (TermArg (object q)) [] s
                        else rec (TermArg (object q)) (p_type prop) s) of
                    Inl e \<Rightarrow> Inl e
                  | Inr (newval, s1) \<Rightarrow>
                      (case assignProp prop propKey newval item of
                         Inl e \<Rightarrow> Inl e
                       | Inr item' \<Rightarrow> Inr (item', s1)))))"

primrec decodeValsWith ::
  "decoder \<Rightarrow> host \<Rightarrow> nat \<Rightarrow> nat \<Rightarrow> quad list \<Rightarrow> (string \<times> jsval) list \<Rightarrow> state \<Rightarrow>
     error + ((string \<times> jsval) list \<times> state)" where
  "decodeValsWith rec h allProps allUris [] item s = Inr (item, s)"
| "decodeValsWith rec h allProps allUris (q # vals) item s =
     (case decodeValWith rec h allProps allUris q item s of
        Inl e \<Rightarrow> Inl e
      | Inr (item', s') \<Rightarrow> decodeValsWith rec h allProps allUris vals item' s')"

definition nodeOf :: "nodeArg \<Rightarrow> rdfterm" where
  "nodeOf nodeUri = (case nodeUri of UriArg u \<Rightarrow> NamedNode u | TermArg t \<Rightarrow> t)"

definition nodeId :: "rdfterm \<Rightarrow> string" where
  "nodeId node = (if isBlankNode node then ''_:'' @ termValue node else termValue node)"

text \<open>
  Lines 219 to 236 of \<open>decodeResource\<close>: the first registered \<open>rdf:type\<close> of the node,
  else the type that the caller expects, else nothing.
\<close>

definition discoverType :: "AbstractDefinitionMap \<Rightarrow> quad list \<Rightarrow> string \<Rightarrow> string option" where
  "discoverType defs types specifyType =
     (if findType (typeDefs defs) types = []
      then (if specifyType \<noteq> [] then Some specifyType else None)
      else Some (findType (typeDefs defs) types))"

definition decodeResourceWith ::
  "decoder \<Rightarrow> host \<Rightarrow> nat \<Rightarrow> AbstractDefinitionMap \<Rightarrow> nodeArg \<Rightarrow> string \<Rightarrow> state \<Rightarrow>
     error + (jsval \<times> state)" where
  "decodeResourceWith rec h f defs nodeUri specifyType s =
     (case discoverType defs
             (getQuads (quads s) (Some (nodeOf nodeUri)) (Some (NamedNode rdf_type)) None) specifyType of
        None \<Rightarrow>
          Inr (JObject [],
               console_log (typeNotFoundMessage nodeUri
                  (getQuads (quads s) (Some (nodeOf nodeUri)) (Some (NamedNode rdf_type)) None)) s)
      | Some ty \<Rightarrow>
          (case decodeProps f defs ty s of
             Inl e \<Rightarrow> Inl e
           | Inr ((allProps, allUris), s1) \<Rightarrow>
               (case decodeValsWith rec h allProps allUris
                       (getQuads (quads s1) (Some (nodeOf nodeUri)) None None)
                       [(''id'', JString (nodeId (nodeOf nodeUri))), (''type'', JString ty)] s1 of
                  Inl e \<Rightarrow> Inl e
                | Inr (item, s2) \<Rightarrow> Inr (JObject item, s2))))"

primrec decodeResource ::
  "host \<Rightarrow> AbstractDefinitionMap \<Rightarrow> nat \<Rightarrow> nodeArg \<Rightarrow> string \<Rightarrow> state \<Rightarrow> error + (jsval \<times> state)" where
  "decodeResource h defs 0 = (\<lambda>nodeUri specifyType s. Inl RangeError)"
| "decodeResource h defs (Suc f) = decodeResourceWith (decodeResource h defs f) h f defs"

definition decodeArray ::
  "host \<Rightarrow> AbstractDefinitionMap \<Rightarrow> nat \<Rightarrow> string \<Rightarrow> bool \<Rightarrow> string \<Rightarrow> string \<Rightarrow> state \<Rightarrow>
     error + (jsval list \<times> state)" where
  "decodeArray h defs f = decodeArrayWith (decodeResource h defs f) h"

subsection \<open>Auxiliary notions for the statements\<close>

text \<open>
  A list item is well formed when it has exactly one \<open>position\<close> quad and exactly one
  \<open>item\<close> quad; \<open>itemPair\<close> is the pair that \<open>decodeArray\<close> pushes for it.
\<close>

definition wellFormedItem :: "quad list \<Rightarrow> quad \<Rightarrow> bool" where
  "wellFormedItem st q =
     (length (getQuads st (Some (object q)) (Some (NamedNode schema_position)) None) = 1
      \<and> length (getQuads st (Some (object q)) (Some (NamedNode schema_item)) None) = 1)"

definition itemPair :: "quad list \<Rightarrow> quad \<Rightarrow> int option \<times> rdfterm" where
  "itemPair st q =
     (parseInt (termValue (object (hd (getQuads st (Some (object q)) (Some (NamedNode schema_position)) None)))),
      object (hd (getQuads st (Some (object q)) (Some (NamedNode schema_item)) None)))"

text \<open>Two states that differ at most in what was written to the console.\<close>

definition sameButConsole :: "state \<Rightarrow> state \<Rightarrow> bool" where
  "sameButConsole s t = (quads s = quads t \<and> cache s = cache t \<and> propObjs s = propObjs t
      \<and> uriObjs s = uriObjs t \<and> uuidCount s = uuidCount t)"

definition sameResult :: "error + ('a \<times> state) \<Rightarrow> error + ('a \<times> state) \<Rightarrow> bool" where
  "sameResult x y =
     (case x of
        Inl e \<Rightarrow> y = Inl e
      | Inr r \<Rightarrow> (case y of Inl e \<Rightarrow> False | Inr r' \<Rightarrow> fst r = fst r' \<and> sameButConsole (snd r) (snd r')))"

text \<open>Every reference held by the cache points into the heaps.\<close>

definition wfState :: "state \<Rightarrow> bool" where
  "wfState s =
     list_all (\<lambda>e. fst (snd e) < length (propObjs s) \<and> snd (snd e) < length (uriObjs s)) (cache s)"

text \<open>The keys of the property map and of the URI map that the cache holds for a type key.\<close>

definition cachedKeys :: "string \<Rightarrow> state \<Rightarrow> string list" where
  "cachedKeys ty s = (case map_of (cache s) ty of None \<Rightarrow> [] | Some e \<Rightarrow> map fst (derefProps s (fst e)))"

definition cachedUriKeys :: "string \<Rightarrow> state \<Rightarrow> string list" where
  "cachedUriKeys ty s = (case map_of (cache s) ty of None \<Rightarrow> [] | Some e \<Rightarrow> map fst (derefUris s (snd e)))"

subsection \<open>Example schemas and hosts\<close>

definition exHost :: host where
  "exHost = \<lparr> uuidv4 = (\<lambda>n. CHR ''u'' # string_of_nat n), startOfDay = (\<lambda>t. t - t mod 86400000),
     toLocaleDateString = (\<lambda>t. string_of_int (t div 86400000)), dateToString = string_of_int,
     dateParse = (\<lambda>s. None), numberToString = (\<lambda>s. ''NaN'') \<rparr>"

definition mkProperty :: "string \<Rightarrow> string \<Rightarrow> bool \<Rightarrow> bool \<Rightarrow> bool \<Rightarrow> AbstractProperty" where
  "mkProperty u t arr opt multi =
     \<lparr> p_uri = u, p_type = t, isArray = arr, isOptional = opt, isMultiType = multi \<rparr>"

definition exDefs :: AbstractDefinitionMap where
  "exDefs = [(''Org'', \<lparr> d_uri = ''u:Org'', extends = None,
        properties = [(''title'', mkProperty ''u:title'' ''string'' False False False)],
        propertyUris = [(''u:title'', ''title'')] \<rparr>)]"

definition exMultiProp :: AbstractProperty where
  "exMultiProp = mkProperty ''u:maker'' ''Org'' False False True"

definition inheritDefs :: AbstractDefinitionMap where
  "inheritDefs =
     [(''P'', \<lparr> d_uri = ''u:P'', extends = Some ''IObject'',
         properties = [(''name'', mkProperty ''u:name'' ''string'' False False False)],
         propertyUris = [(''u:name'', ''name'')] \<rparr>),
      (''C'', \<lparr> d_uri = ''u:C'', extends = Some ''P'',
         properties = [(''extra'', mkProperty ''u:extra'' ''string'' False False False)],
         propertyUris = [(''u:extra'', ''extra'')] \<rparr>),
      (''T'', \<lparr> d_uri = ''u:T'', extends = None,
         properties = [(''p1'', mkProperty ''u:p1'' ''P'' False False False),
                       (''c'', mkProperty ''u:c'' ''C'' False False False),
                       (''p2'', mkProperty ''u:p2'' ''P'' False False False)],
         propertyUris = [(''u:p1'', ''p1''), (''u:c'', ''c''), (''u:p2'', ''p2'')] \<rparr>)]"


text \<open>A URI map none of whose entries yields the key \<open>id\<close> or the key \<open>type\<close>.\<close>

definition reservedFree :: "(string \<times> string) list \<Rightarrow> bool" where
  "reservedFree m = (''id'' \<notin> snd ` set m \<and> ''type'' \<notin> snd ` set m)"

definition reservedKeyDefs :: AbstractDefinitionMap where
  "reservedKeyDefs = [(''T'', \<lparr> d_uri = ''u:T'', extends = None,
        properties = [(''type'', mkProperty ''u:kind'' ''string'' False False False)],
        propertyUris = [(''u:kind'', ''type'')] \<rparr>)]"

definition reservedKeyState :: state where
  "reservedKeyState = emptyState\<lparr>quads :=
     [(NamedNode ''urn:n'', NamedNode rdf_type, NamedNode ''u:T''),
      (NamedNode ''urn:n'', NamedNode ''u:kind'', Literal ''x'' xsd_string)]\<rparr>"

definition orgState :: state where
  "orgState = emptyState\<lparr>quads :=
     [(NamedNode ''urn:o'', NamedNode rdf_type, NamedNode ''u:Org''),
      (NamedNode ''urn:o'', NamedNode ''u:title'', Literal ''ACME'' xsd_string)]\<rparr>"






definition parentCached :: state where
  "parentCached = emptyState\<lparr>cache := [(''P'', 0, 0)],
      propObjs := [[(''name'', mkProperty ''u:name'' ''string'' False False False)]],
      uriObjs := [[(''u:name'', ''name'')]]\<rparr>"

definition childCached :: state where
  "childCached = emptyState\<lparr>cache := [(''P'', 0, 0), (''C'', 0, 0)],
      propObjs := [[(''name'', mkProperty ''u:name'' ''string'' False False False),
                    (''extra'', mkProperty ''u:extra'' ''string'' False False False)]],
      uriObjs := [[(''u:name'', ''name''), (''u:extra'', ''extra'')]]\<rparr>"

definition inheritObject :: jsval where
  "inheritObject = JObject [(''p1'', JObject [(''name'', JString ''a'')]),
     (''c'', JObject [(''name'', JString ''b''), (''extra'', JString ''x'')]),
     (''p2'', JObject [(''name'', JString ''c'')])]"

section \<open>Basic facts\<close>

lemma lower_char_idem: "lower_char (lower_char c) = lower_char c"
  by (simp add: lower_char_def)

lemma toLowerCase_idem: "toLowerCase (toLowerCase v) = toLowerCase v"
  by (simp add: toLowerCase_def lower_char_idem)

lemma toLowerCase_append: "toLowerCase (a @ b) = toLowerCase a @ toLowerCase b"
  by (simp add: toLowerCase_def)

lemma ex_lowerA: "toLowerCase ''ABCDEF12-3456-7890-ABCD-EF1234567890'' = ''abcdef12-3456-7890-abcd-ef1234567890''"
  by code_simp

text \<open>
  Claim C7. A string value under the key \<open>uuid\<close> is built as the named node
  \<open>urn:uuid:\<close> followed by the lower-cased value, never as a literal; decoding such a
  reference for the key \<open>uuid\<close> drops the nine characters of the prefix and lower-cases
  the rest. The value \<open>ABCDEF12-3456-7890-ABCD-EF1234567890\<close> is built as
  \<open>urn:uuid:abcdef12-3456-7890-abcd-ef1234567890\<close> and decoded as the lower-cased UUID.
\<close>

theorem uuid_reference_roundtrip:
  "buildLiteral h node property ''string'' ''uuid'' (JString v) s
     = Inr (store_addQuad (NamedNode node, NamedNode property, NamedNode (''urn:uuid:'' @ toLowerCase v)) s)
   \<and> decodeLiteral h ''string'' ''uuid'' (termValue (NamedNode (''urn:uuid:'' @ r))) = JString (toLowerCase r)
   \<and> decodeLiteral h ''string'' ''uuid'' (termValue (NamedNode (''urn:uuid:'' @ toLowerCase v)))
        = JString (toLowerCase v)
   \<and> buildLiteral h node property ''string'' ''uuid'' (JString ''ABCDEF12-3456-7890-ABCD-EF1234567890'') s
     = Inr (store_addQuad (NamedNode node, NamedNode property,
              NamedNode ''urn:uuid:abcdef12-3456-7890-abcd-ef1234567890'') s)
   \<and> decodeLiteral h ''string'' ''uuid'' (termValue (NamedNode ''urn:uuid:abcdef12-3456-7890-abcd-ef1234567890''))
        = JString ''abcdef12-3456-7890-abcd-ef1234567890''"
proof -
  have low: "toLowerCase ''abcdef12-3456-7890-abcd-ef1234567890'' = ''abcdef12-3456-7890-abcd-ef1234567890''"
    using toLowerCase_idem [of "''ABCDEF12-3456-7890-ABCD-EF1234567890''"] by (simp only: ex_lowerA)
  show ?thesis
    by (simp add: buildLiteral_def decodeLiteral_def substring_def toLowerCase_idem ex_lowerA low)
qed

lemma state_upd_comm:
  "s\<lparr>uuidCount := a, console := b\<rparr> = s\<lparr>console := b, uuidCount := a\<rparr>"
  by (cases s) simp

text \<open>
  Claim C1, as amended. When the property is declared \<open>isMultiType\<close> and the value has no
  \<open>type\<close> field, \<open>buildObject\<close> writes the diagnostic to the console and goes on exactly
  as for a property that is not multi-type: the sub-resource is built under the declared
  type key of the property.
\<close>

theorem multitype_without_type_falls_back:
  assumes "isMultiType p" and "js_in ''type'' dval = Inr False"
  shows "buildObject h defs f p dval baseUri s
           = buildObject h defs f (p\<lparr>isMultiType := False\<rparr>) dval baseUri
               (console_log (missingTypeMessage (p_type p)) s)"
  using assms
  by (cases "js_in ''id'' dval"; cases "js_get dval ''id''")
     (simp_all add: buildObject_def buildObjectWith_def mintUri_def freshUuid_def console_log_def state_upd_comm)

theorem multitype_without_type_falls_back_witness:
  "isMultiType exMultiProp \<and> js_in ''type'' (JObject [(''title'', JString ''x'')]) = Inr False
   \<and> buildObject exHost exDefs 2 exMultiProp (JObject [(''title'', JString ''x'')]) ''urn:p'' emptyState
       = buildObject exHost exDefs 2 (exMultiProp\<lparr>isMultiType := False\<rparr>)
           (JObject [(''title'', JString ''x'')]) ''urn:p''
           (console_log (missingTypeMessage (p_type exMultiProp)) emptyState)"
proof -
  have h1: "isMultiType exMultiProp" by (simp add: exMultiProp_def mkProperty_def)
  have h2: "js_in ''type'' (JObject [(''title'', JString ''x'')]) = Inr False" by simp
  show ?thesis
    by (intro conjI) (rule h1, rule h2, rule multitype_without_type_falls_back [OF h1 h2])
qed

text \<open>
  Claim C1, as stated, fails: the build of a multi-type value without \<open>type\<close> returns
  normally, and the sub-resource carries the type URI of the declared type key \<open>Org\<close>.
\<close>

theorem multitype_without_type_counterexample:
  "buildObject exHost exDefs 2 exMultiProp (JObject [(''title'', JString ''x'')]) ''urn:p'' emptyState
     = Inr (''urn:p#u0'',
            \<lparr> quads = [(NamedNode ''urn:p#u0'', NamedNode rdf_type, NamedNode ''u:Org''),
                        (NamedNode ''urn:p#u0'', NamedNode ''u:title'', Literal ''x'' xsd_string)],
              cache = [(''Org'', 0, 0)],
              propObjs = [[(''title'', mkProperty ''u:title'' ''string'' False False False)]],
              uriObjs = [[]], uuidCount = 1,
              console = [missingTypeMessage ''Org''] \<rparr>)"
  by code_simp

lemma collectItems_filter:
  "collectItems st vals out = out @ map (itemPair st) (filter (wellFormedItem st) vals)"
  by (induction vals arbitrary: out) (simp_all add: wellFormedItem_def itemPair_def)

lemma decodeItemsWith_literal:
  "decodeItemsWith rec h True ty propKey rs s
     = Inr (map (\<lambda>r. decodeLiteral h ty propKey (termValue (snd r))) rs, s)"
  by (induction rs) simp_all

text \<open>
  Claim C10. \<open>decodeArray\<close> decodes exactly the list items that have one \<open>position\<close>
  quad and one \<open>item\<close> quad, in the order of their positions; every other element of
  the list is left out, and leaving it out raises nothing: with literal elements the
  call always returns.
\<close>

theorem decodeArray_skips_malformed:
  "decodeArray h defs f nodeUri literalVal ty propKey s
     = decodeItemsWith (decodeResource h defs f) h literalVal ty propKey
         (sortBy compareFn
            (map (itemPair (quads s))
               (filter (wellFormedItem (quads s))
                  (getQuads (quads s) (Some (NamedNode nodeUri))
                     (Some (NamedNode schema_itemListElement)) None))))
         s
   \<and> decodeArray h defs f nodeUri True ty propKey s
     = Inr (map (\<lambda>r. decodeLiteral h ty propKey (termValue (snd r)))
              (sortBy compareFn
                 (map (itemPair (quads s))
                    (filter (wellFormedItem (quads s))
                       (getQuads (quads s) (Some (NamedNode nodeUri))
                          (Some (NamedNode schema_itemListElement)) None)))),
            s)"
  by (simp add: decodeArray_def decodeArrayWith_def collectItems_filter decodeItemsWith_literal)



lemma sameButConsole_refl [simp]: "sameButConsole s s"
  by (simp add: sameButConsole_def)

lemma sameButConsole_log [simp]: "sameButConsole (console_log m s) s" "sameButConsole s (console_log m s)"
  by (simp_all add: sameButConsole_def console_log_def)

lemma sameResult_Inr [simp]: "sameResult (Inr (v, s)) (Inr (w, t)) = (v = w \<and> sameButConsole s t)"
  by (simp add: sameResult_def)

lemma sameResult_Inl [simp]: "sameResult (Inl e) y = (y = Inl e)" "sameResult x (Inl e) = (x = Inl e)"
  by (auto simp: sameResult_def split: sum.splits)

lemma sameResult_bind:
  assumes "sameResult x y"
    and "\<And>v s t. sameButConsole s t \<Longrightarrow> sameResult (k v s) (k' v t)"
  shows "sameResult (case x of Inl e \<Rightarrow> Inl e | Inr r \<Rightarrow> k (fst r) (snd r))
                    (case y of Inl e \<Rightarrow> Inl e | Inr r \<Rightarrow> k' (fst r) (snd r))"
  using assms by (cases x; cases y) (auto simp: sameResult_def)


lemma sameResultI:
  assumes "\<And>e. x = Inl e \<Longrightarrow> y = Inl e"
    and "\<And>v s. x = Inr (v, s) \<Longrightarrow> \<exists>t. y = Inr (v, t) \<and> sameButConsole s t"
  shows "sameResult x y"
  using assms by (cases x; cases y) (auto simp: sameResult_def)

lemma sameResult_InrD:
  "sameResult x y \<Longrightarrow> x = Inr (v, s) \<Longrightarrow> \<exists>t. y = Inr (v, t) \<and> sameButConsole s t"
  by (cases y) (auto simp: sameResult_def)

lemma sameResult_InlD: "sameResult x y \<Longrightarrow> x = Inl e \<Longrightarrow> y = Inl e"
  by (auto simp: sameResult_def)














section \<open>The property resolver\<close>




lemma getAllProperties_frame:
  "getAllProperties f defs ty s = Inr (a, s') \<Longrightarrow>
     cache s' = cache s \<and> uriObjs s' = uriObjs s \<and> quads s' = quads s
     \<and> uuidCount s' = uuidCount s \<and> console s' = console s
     \<and> length (propObjs s) \<le> length (propObjs s')
     \<and> (wfState s \<longrightarrow> a < length (propObjs s') \<and> wfState s')"
proof (induction f arbitrary: ty s a s')
  case 0
  then show ?case by simp
next
  case (Suc f)
  show ?case
  proof (cases "map_of (cache s) ty")
    case (Some e)
    then have "(ty, e) \<in> set (cache s)" by (rule map_of_SomeD)
    with Some Suc.prems show ?thesis
      by (auto simp: wfState_def list_all_iff)
  next
    case None
    note nc = None
    show ?thesis
    proof (cases "map_of defs ty")
      case None
      with nc Suc.prems show ?thesis by simp
    next
      case (Some d)
      show ?thesis
      proof (cases "hasParent d")
        case True
        with nc Some Suc.prems obtain a0 s0 where
          r: "getAllProperties f defs (the (extends d)) s = Inr (a0, s0)"
          and e: "a = a0" "s' = s0\<lparr>propObjs := (propObjs s0)[a0 :=
                         fold (\<lambda>(key, v). AList.update key v) (properties d) (derefProps s0 a0)]\<rparr>"
          by (auto split: sum.splits)
        from Suc.IH [OF r] e show ?thesis by (auto simp: wfState_def)
      next
        case False
        with nc Some Suc.prems show ?thesis
          by (fastforce simp: newProps_def wfState_def list_all_iff less_Suc_eq)
      qed
    qed
  qed
qed




text \<open>
  Claim C3 fails on the code. \<open>getAllProperties\<close> and \<open>getAllPropertyUris\<close> hand out
  the cached map of the parent itself and write the child's entries into it. After
  \<open>P\<close> is resolved and cached, resolving its child \<open>C\<close> changes the entry of \<open>P\<close>: both
  type keys then share one property map and one URI map, which hold the child's
  entries too. \<open>buildResource\<close> caches an empty URI map, which is not what a fresh
  resolution gives. Building an object with a \<open>P\<close>, a \<open>C\<close> and another \<open>P\<close> writes the
  child's property \<open>extra\<close> for the second \<open>P\<close>, with the text \<open>undefined\<close>.
\<close>

theorem child_resolution_overwrites_cached_parent:
  "decodeProps 2 inheritDefs ''P'' emptyState = Inr ((0, 0), parentCached)
   \<and> cachedKeys ''P'' parentCached = [''name''] \<and> cachedUriKeys ''P'' parentCached = [''u:name'']
   \<and> decodeProps 3 inheritDefs ''C'' parentCached = Inr ((0, 0), childCached)
   \<and> cachedKeys ''P'' childCached = [''name'', ''extra'']
   \<and> cachedUriKeys ''P'' childCached = [''u:name'', ''u:extra'']
   \<and> map_sum id (\<lambda>r. cachedUriKeys ''P'' (snd r)) (buildProps 2 inheritDefs ''P'' emptyState) = Inr []
   \<and> map_sum id (\<lambda>s. List.member (quads s)
          (NamedNode ''urn:t#u2'', NamedNode ''u:extra'', Literal ''undefined'' xsd_string))
        (buildResource exHost inheritDefs 4 ''T'' ''urn:t'' inheritObject [] emptyState) = Inr True"
  by code_simp

section \<open>Invariants of the decoder\<close>

lemma decodeItemsWith_inv:
  assumes rec: "\<forall>n ty s v s'. P s \<longrightarrow> rec n ty s = Inr (v, s') \<longrightarrow> P s'"
  shows "P s \<Longrightarrow> decodeItemsWith rec h lit ty k rs s = Inr (vs, s') \<Longrightarrow> P s'"
proof (induction rs arbitrary: s vs s')
  case Nil
  then show ?case by simp
next
  case (Cons r rs)
  from Cons.prems(2) obtain v s1 vs1 where
    a: "(if lit then Inr (decodeLiteral h ty k (termValue (snd r)), s) else rec (TermArg (snd r)) [] s) = Inr (v, s1)"
    and b: "decodeItemsWith rec h lit ty k rs s1 = Inr (vs1, s')"
    by (auto split: sum.splits)
  from a Cons.prems(1) rec have "P s1" by (auto split: if_splits)
  from Cons.IH [OF this b] show ?case .
qed

lemma decodeArrayWith_inv:
  assumes rec: "\<forall>n ty s v s'. P s \<longrightarrow> rec n ty s = Inr (v, s') \<longrightarrow> P s'"
  shows "P s \<Longrightarrow> decodeArrayWith rec h u lit ty k s = Inr (vs, s') \<Longrightarrow> P s'"
  unfolding decodeArrayWith_def by (rule decodeItemsWith_inv [OF rec])

lemma decodeValWith_inv:
  assumes rec: "\<forall>n ty s v s'. P s \<longrightarrow> rec n ty s = Inr (v, s') \<longrightarrow> P s'"
    and P: "P s" and r: "decodeValWith rec h ap au q item s = Inr (item', s')"
  shows "P s'"
  using r P rec decodeArrayWith_inv [OF rec P]
  unfolding decodeValWith_def
  by (auto split: option.splits sum.splits if_splits)

lemma decodeValsWith_inv:
  assumes rec: "\<forall>n ty s v s'. P s \<longrightarrow> rec n ty s = Inr (v, s') \<longrightarrow> P s'"
  shows "P s \<Longrightarrow> decodeValsWith rec h ap au vals item s = Inr (item', s') \<Longrightarrow> P s'"
proof (induction vals arbitrary: s item)
  case Nil
  then show ?case by simp
next
  case (Cons q vals)
  from Cons.prems(2) obtain item1 s1 where
    a: "decodeValWith rec h ap au q item s = Inr (item1, s1)"
    and b: "decodeValsWith rec h ap au vals item1 s1 = Inr (item', s')"
    by (auto split: sum.splits)
  from decodeValWith_inv [OF rec Cons.prems(1) a] have "P s1" .
  from Cons.IH [OF this b] show ?case .
qed

lemma update_values: "snd ` set (AList.update k v al) \<subseteq> insert v (snd ` set al)"
  by (induction al) auto

lemma fold_update_values:
  "snd ` set (fold (\<lambda>(key, v). AList.update key v) ps base) \<subseteq> snd ` set ps \<union> snd ` set base"
proof (induction ps arbitrary: base)
  case Nil
  then show ?case by simp
next
  case (Cons p ps)
  obtain k v where p: "p = (k, v)" by (cases p)
  from Cons.IH [of "AList.update k v base"] update_values [of k v base]
  show ?case by (auto simp: p)
qed

lemma reservedFree_overlay:
  "reservedFree ps \<Longrightarrow> reservedFree base \<Longrightarrow> reservedFree (fold (\<lambda>(key, v). AList.update key v) ps base)"
  using fold_update_values [of ps base] unfolding reservedFree_def by blast

lemma reservedFree_Nil [simp]: "reservedFree []"
  by (simp add: reservedFree_def)

lemma reservedFree_deref:
  assumes "list_all reservedFree (uriObjs s)"
  shows "reservedFree (derefUris s a)"
proof (cases "a < length (uriObjs s)")
  case True
  then have "uriObjs s ! a \<in> set (uriObjs s)" by simp
  with assms have "reservedFree (uriObjs s ! a)" by (simp add: list_all_iff)
  with True show ?thesis by (simp add: derefUris_def)
next
  case False
  then show ?thesis by (simp add: derefUris_def)
qed

lemma list_all_update: "list_all P xs \<Longrightarrow> P y \<Longrightarrow> list_all P (xs[a := y])"
  using set_update_subset_insert [of xs a y] by (auto simp: list_all_iff)

lemma getAllPropertyUris_reserved:
  assumes defs: "list_all (\<lambda>kd. reservedFree (propertyUris (snd kd))) defs"
  shows "list_all reservedFree (uriObjs s) \<Longrightarrow> getAllPropertyUris f defs ty s = Inr (a, s')
         \<Longrightarrow> list_all reservedFree (uriObjs s')"
proof (induction f arbitrary: ty s a s')
  case 0
  then show ?case by simp
next
  case (Suc f)
  show ?case
  proof (cases "map_of (cache s) ty")
    case (Some e)
    with Suc.prems show ?thesis by auto
  next
    case None
    note nc = None
    show ?thesis
    proof (cases "map_of defs ty")
      case None
      with nc Suc.prems show ?thesis by simp
    next
      case (Some d)
      then have "(ty, d) \<in> set defs" by (rule map_of_SomeD)
      with defs have rd: "reservedFree (propertyUris d)" by (auto simp: list_all_iff)
      obtain a0 s0 where
        r: "(if hasParent d then getAllPropertyUris f defs (the (extends d)) s else Inr (newUris s)) = Inr (a0, s0)"
        and e: "s' = s0\<lparr>uriObjs := (uriObjs s0)[a0 :=
                         fold (\<lambda>(key, v). AList.update key v) (propertyUris d) (derefUris s0 a0)]\<rparr>"
        using nc Some Suc.prems(2) by (auto split: sum.splits)
      have "list_all reservedFree (uriObjs s0)"
      proof (cases "hasParent d")
        case True
        with r have "getAllPropertyUris f defs (the (extends d)) s = Inr (a0, s0)" by simp
        from Suc.IH [OF Suc.prems(1) this] show ?thesis .
      next
        case False
        with r have "s0 = s\<lparr>uriObjs := uriObjs s @ [[]]\<rparr>" by (simp add: newUris_def)
        with Suc.prems(1) show ?thesis by simp
      qed
      with e rd show ?thesis
        by (simp add: list_all_update reservedFree_overlay reservedFree_deref)
    qed
  qed
qed

lemma decodeProps_reserved:
  assumes defs: "list_all (\<lambda>kd. reservedFree (propertyUris (snd kd))) defs"
    and rf: "list_all reservedFree (uriObjs s)"
    and r: "decodeProps f defs ty s = Inr (e, s')"
  shows "list_all reservedFree (uriObjs s')"
proof (cases "map_of (cache s) ty")
  case (Some x)
  with r rf show ?thesis by (simp add: decodeProps_def)
next
  case None
  with r obtain ap s1 au s2 where
    a: "getAllProperties f defs ty s = Inr (ap, s1)"
    and b: "getAllPropertyUris f defs ty s1 = Inr (au, s2)"
    and c: "s' = s2\<lparr>cache := AList.update ty (ap, au) (cache s2)\<rparr>"
    by (auto simp: decodeProps_def split: sum.splits)
  from getAllProperties_frame [OF a] rf have "list_all reservedFree (uriObjs s1)" by simp
  from getAllPropertyUris_reserved [OF defs this b] c show ?thesis by simp
qed

lemma lookup_reserved:
  "list_all reservedFree (uriObjs s) \<Longrightarrow> map_of (derefUris s au) u = Some k
     \<Longrightarrow> k \<noteq> ''id'' \<and> k \<noteq> ''type''"
  using reservedFree_deref [of s au] by (force simp: reservedFree_def dest!: map_of_SomeD)

lemma assignProp_other:
  "assignProp p k v item = Inr item' \<Longrightarrow> k' \<noteq> k \<Longrightarrow> map_of item' k' = map_of item k'"
  by (auto simp: assignProp_def AList.update_conv' split: if_splits option.splits jsval.splits)

lemma assignProp_present:
  "assignProp p k v item = Inr item' \<Longrightarrow> map_of item k' \<noteq> None \<Longrightarrow> map_of item' k' \<noteq> None"
  by (auto simp: assignProp_def AList.update_conv' split: if_splits option.splits jsval.splits)

lemma decodeValWith_cases:
  assumes "decodeValWith rec h ap au q item s = Inr (item', s')"
  obtains (skip) "map_of (derefUris s au) (termValue (predicate q)) = None" "item' = item" "s' = s"
    | (array) k p arr where
        "map_of (derefUris s au) (termValue (predicate q)) = Some k"
        "map_of (derefProps s ap) k = Some p" "isArray p" "isItemList (quads s) (object q)"
        "decodeArrayWith rec h (termValue (object q)) (isLiteral (p_type p)) (p_type p) k s = Inr (arr, s')"
        "item' = AList.update k (JArray arr) item"
    | (single) k p newval where
        "map_of (derefUris s au) (termValue (predicate q)) = Some k"
        "map_of (derefProps s ap) k = Some p" "\<not> (isArray p \<and> isItemList (quads s) (object q))"
        "(if isLiteral (p_type p)
          then Inr (decodeLiteral h (p_type p) k (termValue (object q)), s)
          else if isMultiType p then rec (TermArg (object q)) [] s
          else rec (TermArg (object q)) (p_type p) s) = Inr (newval, s')"
        "assignProp p k newval item = Inr item'"
proof (cases "map_of (derefUris s au) (termValue (predicate q))")
  case None
  with assms have "item' = item" "s' = s" by (simp_all add: decodeValWith_def)
  with None show ?thesis by (rule skip)
next
  case (Some k)
  note k = Some
  show ?thesis
  proof (cases "map_of (derefProps s ap) k")
    case None
    with assms k show ?thesis by (simp add: decodeValWith_def)
  next
    case (Some p)
    show ?thesis
    proof (cases "isArray p \<and> isItemList (quads s) (object q)")
      case True
      show ?thesis
      proof (cases "decodeArrayWith rec h (termValue (object q)) (isLiteral (p_type p)) (p_type p) k s")
        case (Inl e)
        with assms k Some True show ?thesis by (simp add: decodeValWith_def)
      next
        case (Inr r)
        obtain arr s1 where r: "r = (arr, s1)" by (cases r)
        from assms k Some True Inr r have e: "item' = AList.update k (JArray arr) item" "s' = s1"
          by (simp_all add: decodeValWith_def)
        from True have t: "isArray p" "isItemList (quads s) (object q)" by simp_all
        from Inr r e have da: "decodeArrayWith rec h (termValue (object q)) (isLiteral (p_type p)) (p_type p) k s
            = Inr (arr, s')" by simp
        show ?thesis by (rule array [OF k Some t da e(1)])
      qed
    next
      case False
      define X where "X = (if isLiteral (p_type p)
          then Inr (decodeLiteral h (p_type p) k (termValue (object q)), s)
          else if isMultiType p then rec (TermArg (object q)) [] s
          else rec (TermArg (object q)) (p_type p) s)"
      have unf: "decodeValWith rec h ap au q item s =
           (case X of Inl e \<Rightarrow> Inl e
            | Inr (newval, s1) \<Rightarrow>
                (case assignProp p k newval item of Inl e \<Rightarrow> Inl e | Inr item' \<Rightarrow> Inr (item', s1)))"
        using k Some by (simp add: decodeValWith_def False X_def)
      show ?thesis
      proof (cases X)
        case (Inl e)
        with assms unf show ?thesis by simp
      next
        case (Inr r)
        obtain newval s1 where r: "r = (newval, s1)" by (cases r)
        show ?thesis
        proof (cases "assignProp p k newval item")
          case (Inl e)
          with assms unf Inr r show ?thesis by simp
        next
          case Inr2: (Inr it)
          with assms unf Inr r have "item' = it" "s' = s1" by simp_all
          with Inr r Inr2 have x: "X = Inr (newval, s')" "assignProp p k newval item = Inr item'" by simp_all
          show ?thesis by (rule single [OF k Some False x(1) [unfolded X_def] x(2)])
        qed
      qed
    qed
  qed
qed

lemma decodeValWith_present:
  assumes "decodeValWith rec h ap au q item s = Inr (item', s')" and "map_of item k' \<noteq> None"
  shows "map_of item' k' \<noteq> None"
  using assms(1)
proof (cases rule: decodeValWith_cases)
  case skip
  with assms(2) show ?thesis by simp
next
  case (array k p arr)
  with assms(2) show ?thesis by (simp add: AList.update_conv')
next
  case (single k p newval)
  from assignProp_present [OF single(5) assms(2)] show ?thesis .
qed

lemma decodeValsWith_present:
  "decodeValsWith rec h ap au vals item s = Inr (item', s') \<Longrightarrow> map_of item k' \<noteq> None
     \<Longrightarrow> map_of item' k' \<noteq> None"
proof (induction vals arbitrary: s item)
  case Nil
  then show ?case by simp
next
  case (Cons q vals)
  from Cons.prems(1) obtain item1 s1 where
    a: "decodeValWith rec h ap au q item s = Inr (item1, s1)"
    and b: "decodeValsWith rec h ap au vals item1 s1 = Inr (item', s')"
    by (auto split: sum.splits)
  from Cons.IH [OF b decodeValWith_present [OF a Cons.prems(2)]] show ?case .
qed

lemma decodeValWith_reserved:
  assumes rf: "list_all reservedFree (uriObjs s)"
    and r: "decodeValWith rec h ap au q item s = Inr (item', s')"
  shows "map_of item' ''id'' = map_of item ''id'' \<and> map_of item' ''type'' = map_of item ''type''"
  using r
proof (cases rule: decodeValWith_cases)
  case skip
  then show ?thesis by simp
next
  case (array k p arr)
  from lookup_reserved [OF rf array(1)] have "''id'' \<noteq> k" "''type'' \<noteq> k" by auto
  with array(6) show ?thesis by (simp add: AList.update_conv')
next
  case (single k p newval)
  from lookup_reserved [OF rf single(1)] have "''id'' \<noteq> k" "''type'' \<noteq> k" by auto
  with assignProp_other [OF single(5)] show ?thesis by simp
qed

lemma decodeValsWith_reserved:
  assumes rec: "\<forall>n ty s v s'. list_all reservedFree (uriObjs s) \<longrightarrow> rec n ty s = Inr (v, s')
                   \<longrightarrow> list_all reservedFree (uriObjs s')"
  shows "list_all reservedFree (uriObjs s) \<Longrightarrow> decodeValsWith rec h ap au vals item s = Inr (item', s')
    \<Longrightarrow> map_of item' ''id'' = map_of item ''id'' \<and> map_of item' ''type'' = map_of item ''type''"
proof (induction vals arbitrary: s item)
  case Nil
  then show ?case by simp
next
  case (Cons q vals)
  from Cons.prems(2) obtain item1 s1 where
    a: "decodeValWith rec h ap au q item s = Inr (item1, s1)"
    and b: "decodeValsWith rec h ap au vals item1 s1 = Inr (item', s')"
    by (auto split: sum.splits)
  have "list_all reservedFree (uriObjs s1)"
    by (rule decodeValWith_inv [where P = "\<lambda>s. list_all reservedFree (uriObjs s)", OF rec Cons.prems(1) a])
  from Cons.IH [OF this b] decodeValWith_reserved [OF Cons.prems(1) a] show ?case by simp
qed

lemma decodeResource_reserved:
  assumes defs: "list_all (\<lambda>kd. reservedFree (propertyUris (snd kd))) defs"
  shows "list_all reservedFree (uriObjs s) \<Longrightarrow> decodeResource h defs f n ty s = Inr (v, s')
         \<Longrightarrow> list_all reservedFree (uriObjs s')"
proof (induction f arbitrary: n ty s v s')
  case 0
  then show ?case by simp
next
  case (Suc f)
  have rec: "\<forall>n ty s v s'. list_all reservedFree (uriObjs s) \<longrightarrow> decodeResource h defs f n ty s = Inr (v, s')
                   \<longrightarrow> list_all reservedFree (uriObjs s')"
    using Suc.IH by blast
  show ?case
  proof (cases "discoverType defs (getQuads (quads s) (Some (nodeOf n)) (Some (NamedNode rdf_type)) None) ty")
    case None
    with Suc.prems show ?thesis by (auto simp: decodeResourceWith_def console_log_def)
  next
    case (Some t)
    with Suc.prems(2) obtain ap au s1 item where
      a: "decodeProps f defs t s = Inr ((ap, au), s1)"
      and b: "decodeValsWith (decodeResource h defs f) h ap au (getQuads (quads s1) (Some (nodeOf n)) None None)
                [(''id'', JString (nodeId (nodeOf n))), (''type'', JString t)] s1 = Inr (item, s')"
      by (auto simp: decodeResourceWith_def split: sum.splits)
    from decodeProps_reserved [OF defs Suc.prems(1) a] have "list_all reservedFree (uriObjs s1)" .
    from decodeValsWith_inv [where P = "\<lambda>s. list_all reservedFree (uriObjs s)", OF rec this b]
    show ?thesis .
  qed
qed

text \<open>
  Claim C9, as amended. When the type of the node is determined, the object that
  \<open>decodeResource\<close> returns has a key \<open>id\<close> and a key \<open>type\<close>. They hold the identifier of
  the node and the resolved type key when no URI map, of the schema or already in the
  heap, yields the key \<open>id\<close> or \<open>type\<close>; otherwise a decoded property of that key
  overwrites them.
\<close>

theorem decoded_object_has_id_and_type:
  assumes t: "discoverType defs (getQuads (quads s) (Some (nodeOf n)) (Some (NamedNode rdf_type)) None) ty = Some t"
    and r: "decodeResource h defs (Suc f) n ty s = Inr (v, s')"
  shows "\<exists>item. v = JObject item \<and> map_of item ''id'' \<noteq> None \<and> map_of item ''type'' \<noteq> None
           \<and> (list_all (\<lambda>kd. reservedFree (propertyUris (snd kd))) defs \<and> list_all reservedFree (uriObjs s)
                \<longrightarrow> map_of item ''id'' = Some (JString (nodeId (nodeOf n)))
                    \<and> map_of item ''type'' = Some (JString t))"
proof -
  from t r obtain ap au s1 item where
    a: "decodeProps f defs t s = Inr ((ap, au), s1)"
    and b: "decodeValsWith (decodeResource h defs f) h ap au (getQuads (quads s1) (Some (nodeOf n)) None None)
              [(''id'', JString (nodeId (nodeOf n))), (''type'', JString t)] s1 = Inr (item, s')"
    and v: "v = JObject item"
    by (auto simp: decodeResourceWith_def split: sum.splits)
  have p1: "map_of item ''id'' \<noteq> None" by (rule decodeValsWith_present [OF b]) simp
  have p2: "map_of item ''type'' \<noteq> None" by (rule decodeValsWith_present [OF b]) simp
  have p3: "map_of item ''id'' = Some (JString (nodeId (nodeOf n))) \<and> map_of item ''type'' = Some (JString t)"
    if defs: "list_all (\<lambda>kd. reservedFree (propertyUris (snd kd))) defs" and rf: "list_all reservedFree (uriObjs s)"
  proof -
    have rec: "\<forall>n ty s v s'. list_all reservedFree (uriObjs s) \<longrightarrow> decodeResource h defs f n ty s = Inr (v, s')
                   \<longrightarrow> list_all reservedFree (uriObjs s')"
      using decodeResource_reserved [OF defs] by blast
    from decodeProps_reserved [OF defs rf a] have "list_all reservedFree (uriObjs s1)" .
    from decodeValsWith_reserved [OF rec this b] show ?thesis by simp
  qed
  from v p1 p2 p3 show ?thesis by blast
qed

theorem decoded_object_has_id_and_type_witness:
  "\<exists>item. JObject [(''id'', JString ''urn:o''), (''type'', JString ''Org''), (''title'', JString ''ACME'')] = JObject item
      \<and> map_of item ''id'' = Some (JString (nodeId (nodeOf (UriArg ''urn:o''))))
      \<and> map_of item ''type'' = Some (JString ''Org'')"
proof -
  have t: "discoverType exDefs (getQuads (quads orgState) (Some (nodeOf (UriArg ''urn:o''))) (Some (NamedNode rdf_type)) None) [] = Some ''Org''"
    by code_simp
  have r: "decodeResource exHost exDefs (Suc 1) (UriArg ''urn:o'') [] orgState
     = Inr (JObject [(''id'', JString ''urn:o''), (''type'', JString ''Org''), (''title'', JString ''ACME'')],
            orgState\<lparr>cache := [(''Org'', 0, 0)],
              propObjs := [[(''title'', mkProperty ''u:title'' ''string'' False False False)]],
              uriObjs := [[(''u:title'', ''title'')]]\<rparr>)"
    by code_simp
  have d: "list_all (\<lambda>kd. reservedFree (propertyUris (snd kd))) exDefs" by code_simp
  have u: "list_all reservedFree (uriObjs orgState)" by code_simp
  from decoded_object_has_id_and_type [OF t r] d u show ?thesis by blast
qed

text \<open>
  Claim C9, as stated, fails: with a property keyed \<open>type\<close> in the schema, the key \<open>type\<close>
  of the decoded object holds the value of that property, not the type key \<open>T\<close>.
\<close>

theorem decoded_type_key_counterexample:
  "map_sum id fst (decodeResource exHost reservedKeyDefs 2 (UriArg ''urn:n'') [] reservedKeyState)
     = Inr (JObject [(''id'', JString ''urn:n''), (''type'', JString ''x'')])"
  by code_simp

end
